theory Spec2Isabelle
  imports Complex_Main
begin

section \<open>Python values\<close>

text \<open>
  The values the endpoints pass around are JSON-serialisable Python values: the status
  payloads are dict literals, the engine's output is a dict read with \<open>.get\<close>.
  A dict is an association list in the order the literal lists its keys; \<open>map_of\<close> is the
  lookup. A Python \<open>str\<close> is a \<open>string\<close> holding its UTF-8 bytes. A Python \<open>float\<close> is
  represented by the rational number its decimal literal denotes: the code only stores and
  passes floats on, it does no arithmetic on them.
\<close>

datatype json =
    JNull
  | JBool bool
  | JInt int
  | JFloat rat
  | JStr string
  | JArr "json list"
  | JObj "(string \<times> json) list"

type_synonym pydict = "(string \<times> json) list"

text \<open>Python's truth test, as \<open>not v\<close> applies it.\<close>

fun falsy :: "json \<Rightarrow> bool" where
  "falsy JNull = True"
| "falsy (JBool b) = (\<not> b)"
| "falsy (JInt i) = (i = 0)"
| "falsy (JFloat r) = (r = 0)"
| "falsy (JStr s) = (s = [])"
| "falsy (JArr xs) = (xs = [])"
| "falsy (JObj kvs) = (kvs = [])"

text \<open>\<open>d.get(k, dflt)\<close>; \<open>d.get(k)\<close> is \<open>dict_get d k JNull\<close>.\<close>

definition dict_get :: "pydict \<Rightarrow> string \<Rightarrow> json \<Rightarrow> json" where
  "dict_get d k dflt = (case map_of d k of None \<Rightarrow> dflt | Some v \<Rightarrow> v)"

text \<open>The character U+2026 (horizontal ellipsis) of the source's string literal, in UTF-8.\<close>

definition ellipsis :: string where
  "ellipsis = [CHR 0xE2, CHR 0x80, CHR 0xA6]"

section \<open>The request model\<close>

text \<open>\<open>class Generate3DRequest(BaseModel)\<close> of router.py.\<close>

record Generate3DRequest =
  images :: "string list"
  seed :: int
  randomize_seed :: bool
  texture_size :: int
  mesh_simplify :: rat
  generate_color :: bool
  generate_normal :: bool
  generate_model :: bool
  save_gaussian_ply :: bool
  return_no_background :: bool
  ss_sampling_steps :: int
  ss_guidance_strength :: rat
  slat_sampling_steps :: int
  slat_guidance_strength :: rat

text \<open>
  \<open>class TrellisRequest(BaseModel)\<close> of main.py declares the same fourteen fields with the
  same types and defaults.
\<close>

type_synonym TrellisRequest = Generate3DRequest

text \<open>
  What a client supplies: each field is either given (with a value of the field's type) or
  omitted. Constructing the model takes the given value, or the default of the class
  declaration; \<open>images\<close> has no default and is required.
\<close>

record request_fields =
  given_images :: "string list option"
  given_seed :: "int option"
  given_randomize_seed :: "bool option"
  given_texture_size :: "int option"
  given_mesh_simplify :: "rat option"
  given_generate_color :: "bool option"
  given_generate_normal :: "bool option"
  given_generate_model :: "bool option"
  given_save_gaussian_ply :: "bool option"
  given_return_no_background :: "bool option"
  given_ss_sampling_steps :: "int option"
  given_ss_guidance_strength :: "rat option"
  given_slat_sampling_steps :: "int option"
  given_slat_guidance_strength :: "rat option"

datatype validation_error = FieldRequired string

definition or_default :: "'a option \<Rightarrow> 'a \<Rightarrow> 'a" where
  "or_default given dflt = (case given of None \<Rightarrow> dflt | Some v \<Rightarrow> v)"

definition Generate3DRequest_init :: "request_fields \<Rightarrow> validation_error + Generate3DRequest" where
  "Generate3DRequest_init f =
     (case given_images f of
        None \<Rightarrow> Inl (FieldRequired ''images'')
      | Some imgs \<Rightarrow> Inr
          \<lparr> images = imgs,
            seed = or_default (given_seed f) 1337,
            randomize_seed = or_default (given_randomize_seed f) False,
            texture_size = or_default (given_texture_size f) 2048,
            mesh_simplify = or_default (given_mesh_simplify f) (96 / 100),
            generate_color = or_default (given_generate_color f) True,
            generate_normal = or_default (given_generate_normal f) False,
            generate_model = or_default (given_generate_model f) True,
            save_gaussian_ply = or_default (given_save_gaussian_ply f) False,
            return_no_background = or_default (given_return_no_background f) True,
            ss_sampling_steps = or_default (given_ss_sampling_steps f) 26,
            ss_guidance_strength = or_default (given_ss_guidance_strength f) 8,
            slat_sampling_steps = or_default (given_slat_sampling_steps f) 26,
            slat_guidance_strength = or_default (given_slat_guidance_strength f) (32 / 10) \<rparr>)"

section \<open>The collaborators\<close>

text \<open>
  The keyword arguments of \<open>trellis_service.generate_3d_asset\<close>. The engine is a parameter
  of the model: it maps the arguments to the output dict, or raises; an exception \<open>e\<close> is
  represented by \<open>str(e)\<close>.
\<close>

record trellis_args =
  arg_images :: "string list"
  arg_seed :: int
  arg_randomize_seed :: bool
  arg_texture_size :: int
  arg_mesh_simplify :: rat
  arg_generate_color :: bool
  arg_generate_normal :: bool
  arg_generate_model :: bool
  arg_save_gaussian_ply :: bool
  arg_return_no_background :: bool
  arg_ss_sampling_steps :: int
  arg_ss_guidance_strength :: rat
  arg_slat_sampling_steps :: int
  arg_slat_guidance_strength :: rat

type_synonym trellis_service = "trellis_args \<Rightarrow> string + pydict"

text \<open>
  \<open>redis_service\<close>, as the router uses it: \<open>set_json(key, value, ex=...)\<close> and
  \<open>get_json(key)\<close> over some store state. Either call may raise. \<open>get_json\<close> returns a
  Python value, \<open>None\<close> being \<open>JNull\<close>.
\<close>

record 's redis_service =
  set_json :: "string \<Rightarrow> json \<Rightarrow> nat \<Rightarrow> 's \<Rightarrow> (string + unit) \<times> 's"
  get_json :: "string \<Rightarrow> 's \<Rightarrow> string + json"

text \<open>
  The calls a handler makes to its collaborators, in order. A run threads the store state
  and this log.
\<close>

datatype call = SetJson string json nat | Generate trellis_args

record 's world =
  store :: 's
  calls :: "call list"

text \<open>
  What the caller gets when a handler does not return: the \<open>HTTPException\<close> the handler
  raised, or an exception that left the handler uncaught.
\<close>

datatype failure = HTTPException nat string | Uncaught string

section \<open>router.py\<close>

definition STATUS_KEY :: string where
  "STATUS_KEY = ''trellis_status:current''"

text \<open>
  \<open>_set_status\<close>: one \<open>set_json\<close> call at the fixed key with \<open>ex=3600\<close>; what the call
  raises, \<open>_set_status\<close> raises.
\<close>

definition set_status :: "'s redis_service \<Rightarrow> json \<Rightarrow> 's world \<Rightarrow> (string + unit) \<times> 's world" where
  "set_status rs payload w =
     (case set_json rs STATUS_KEY payload 3600 (store w) of
        (r, s') \<Rightarrow> (r, \<lparr> store = s', calls = calls w @ [SetJson STATUS_KEY payload 3600] \<rparr>))"

text \<open>
  The body of the \<open>try\<close> block of \<open>generate_3d_asset\<close>: \<open>Inl e\<close> is an exception raised in
  it, by a status write or by the engine. The handler's return value is modelled, one
  request at a time; the \<open>logger\<close> calls are left out.
\<close>

definition generate_3d_asset_try ::
  "'s redis_service \<Rightarrow> trellis_service \<Rightarrow> Generate3DRequest \<Rightarrow> 's world \<Rightarrow> (string + pydict) \<times> 's world" where
  "generate_3d_asset_try rs trellis request w =
     (case set_status rs
             (JObj [(''status'', JStr ''processing''),
                    (''progress'', JInt 5),
                    (''message'', JStr (''Submitting job to Trellis'' @ ellipsis))]) w of
        (Inl e, w1) \<Rightarrow> (Inl e, w1)
      | (Inr _, w1) \<Rightarrow>
          (let args = \<lparr> arg_images = images request,
                        arg_seed = seed request,
                        arg_randomize_seed = randomize_seed request,
                        arg_texture_size = texture_size request,
                        arg_mesh_simplify = mesh_simplify request,
                        arg_generate_color = generate_color request,
                        arg_generate_normal = generate_normal request,
                        arg_generate_model = generate_model request,
                        arg_save_gaussian_ply = save_gaussian_ply request,
                        arg_return_no_background = return_no_background request,
                        arg_ss_sampling_steps = ss_sampling_steps request,
                        arg_ss_guidance_strength = ss_guidance_strength request,
                        arg_slat_sampling_steps = slat_sampling_steps request,
                        arg_slat_guidance_strength = slat_guidance_strength request \<rparr>;
               w2 = w1 \<lparr> calls := calls w1 @ [Generate args] \<rparr>
           in case trellis args of
                Inl e \<Rightarrow> (Inl e, w2)
              | Inr output \<Rightarrow>
                  (case set_status rs
                          (JObj [(''status'', JStr ''complete''),
                                 (''progress'', JInt 100),
                                 (''message'', JStr ''3D model generated successfully!''),
                                 (''model_file'', dict_get output ''model_file'' JNull),
                                 (''color_video'', dict_get output ''color_video'' JNull),
                                 (''no_background_images'',
                                    dict_get output ''no_background_images'' (JArr []))]) w2 of
                     (Inl e, w3) \<Rightarrow> (Inl e, w3)
                   | (Inr _, w3) \<Rightarrow> (Inr output, w3))))"

text \<open>
  \<open>generate_3d_asset\<close>: the \<open>try\<close> block, and the \<open>except Exception as e\<close> handler, which
  writes the error status and raises the \<open>HTTPException\<close>. An exception raised by the
  handler's own status write leaves the function uncaught.
\<close>

definition generate_3d_asset ::
  "'s redis_service \<Rightarrow> trellis_service \<Rightarrow> Generate3DRequest \<Rightarrow> 's world \<Rightarrow> (failure + pydict) \<times> 's world" where
  "generate_3d_asset rs trellis request w =
     (case generate_3d_asset_try rs trellis request w of
        (Inr output, w') \<Rightarrow> (Inr output, w')
      | (Inl e, w') \<Rightarrow>
          (case set_status rs
                  (JObj [(''status'', JStr ''error''),
                         (''progress'', JInt 0),
                         (''message'', JStr (''Generation failed: '' @ e))]) w' of
             (Inl e', w'') \<Rightarrow> (Inl (Uncaught e'), w'')
           | (Inr _, w'') \<Rightarrow>
               (Inl (HTTPException 500 (''Failed to generate 3D asset: '' @ e)), w'')))"

definition get_generation_status :: "'s redis_service \<Rightarrow> 's \<Rightarrow> failure + json" where
  "get_generation_status rs s =
     (case get_json rs STATUS_KEY s of
        Inl e \<Rightarrow> Inl (Uncaught e)
      | Inr status \<Rightarrow>
          if falsy status
          then Inr (JObj [(''status'', JStr ''idle''),
                          (''progress'', JInt 0),
                          (''message'', JStr ''No generation started'')])
          else Inr status)"

section \<open>main.py\<close>

text \<open>
  \<open>generate_3d\<close> of the secondary service: main.py imports no store, the handler only calls
  the engine.
\<close>

definition generate_3d ::
  "trellis_service \<Rightarrow> TrellisRequest \<Rightarrow> 's world \<Rightarrow> (failure + pydict) \<times> 's world" where
  "generate_3d trellis request w =
     (let args = \<lparr> arg_images = images request,
                   arg_seed = seed request,
                   arg_randomize_seed = randomize_seed request,
                   arg_texture_size = texture_size request,
                   arg_mesh_simplify = mesh_simplify request,
                   arg_generate_color = generate_color request,
                   arg_generate_normal = generate_normal request,
                   arg_generate_model = generate_model request,
                   arg_save_gaussian_ply = save_gaussian_ply request,
                   arg_return_no_background = return_no_background request,
                   arg_ss_sampling_steps = ss_sampling_steps request,
                   arg_ss_guidance_strength = ss_guidance_strength request,
                   arg_slat_sampling_steps = slat_sampling_steps request,
                   arg_slat_guidance_strength = slat_guidance_strength request \<rparr>;
          w1 = w \<lparr> calls := calls w @ [Generate args] \<rparr>
      in case trellis args of
           Inr result \<Rightarrow> (Inr result, w1)
         | Inl e \<Rightarrow> (Inl (HTTPException 500 e), w1))"

section \<open>The status store\<close>

text \<open>
  Modelled from the spec: \<open>redis_service\<close> (app/core/redis.py) is not among the sources. The
  spec describes it as a key-value store with expiry, \<open>SET key value EX 3600\<close> and
  \<open>GET key\<close> by exact key, the value being the JSON-serialised record: a write
  unconditionally overwrites the slot and restarts its expiry window, a read returns the
  current record unless the slot is absent or has expired. Time is a clock in seconds that
  only \<open>elapse\<close> moves; a slot holds its value and the time at which it expires.
\<close>

record redis =
  slots :: "string \<rightharpoonup> json \<times> nat"
  clock :: nat

text \<open>
  Modelled from the spec: \<open>redis_service.set_json\<close> (missing), \<open>SET key value EX ex\<close>: the
  slot is overwritten whatever it held, and expires \<open>ex\<close> seconds from now.
\<close>

definition redis_set_json :: "string \<Rightarrow> json \<Rightarrow> nat \<Rightarrow> redis \<Rightarrow> redis" where
  "redis_set_json key v ex s = s \<lparr> slots := (slots s)(key \<mapsto> (v, clock s + ex)) \<rparr>"

text \<open>
  Modelled from the spec: \<open>redis_service.get_json\<close> (missing), \<open>GET key\<close>: the stored
  value, or \<open>None\<close> when the slot is absent or has expired.
\<close>

definition redis_get_json :: "string \<Rightarrow> redis \<Rightarrow> json" where
  "redis_get_json key s =
     (case slots s key of
        None \<Rightarrow> JNull
      | Some (v, expires) \<Rightarrow> if clock s < expires then v else JNull)"

text \<open>Modelled from the spec: the passing of \<open>secs\<close> seconds with no write.\<close>

definition elapse :: "nat \<Rightarrow> redis \<Rightarrow> redis" where
  "elapse secs s = s \<lparr> clock := clock s + secs \<rparr>"

text \<open>Modelled from the spec: the store before any submission.\<close>

definition redis_empty :: redis where
  "redis_empty = \<lparr> slots = Map.empty, clock = 0 \<rparr>"

text \<open>
  Modelled from the spec: the \<open>redis_service\<close> object (missing) over this store; neither
  call raises.
\<close>

definition redis_service :: "redis redis_service" where
  "redis_service =
     \<lparr> set_json = (\<lambda>key v ex s. (Inr (), redis_set_json key v ex s)),
       get_json = (\<lambda>key s. Inr (redis_get_json key s)) \<rparr>"

section \<open>Vocabulary of the statements and test doubles\<close>

text \<open>The argument bundle that passes every field of a request on under its own name.\<close>

definition forwarded :: "Generate3DRequest \<Rightarrow> trellis_args" where
  "forwarded request =
     \<lparr> arg_images = images request,
       arg_seed = seed request,
       arg_randomize_seed = randomize_seed request,
       arg_texture_size = texture_size request,
       arg_mesh_simplify = mesh_simplify request,
       arg_generate_color = generate_color request,
       arg_generate_normal = generate_normal request,
       arg_generate_model = generate_model request,
       arg_save_gaussian_ply = save_gaussian_ply request,
       arg_return_no_background = return_no_background request,
       arg_ss_sampling_steps = ss_sampling_steps request,
       arg_ss_guidance_strength = ss_guidance_strength request,
       arg_slat_sampling_steps = slat_sampling_steps request,
       arg_slat_guidance_strength = slat_guidance_strength request \<rparr>"

text \<open>
  The engine stubs and the request of the spec's two concrete scenarios: an engine that
  returns \<open>{"model_file": "m.glb"}\<close>, an engine that raises \<open>"rate limited"\<close>, and the
  request \<open>{images: ["http://a/img.png"], generate_model: true, generate_color: false}\<close>
  as supplied and as constructed.
\<close>

definition stub_engine :: trellis_service where
  "stub_engine args = Inr [(''model_file'', JStr ''m.glb'')]"

definition failing_engine :: trellis_service where
  "failing_engine args = Inl ''rate limited''"

definition example_fields :: request_fields where
  "example_fields =
     \<lparr> given_images = Some [''http://a/img.png''],
       given_seed = None,
       given_randomize_seed = None,
       given_texture_size = None,
       given_mesh_simplify = None,
       given_generate_color = Some False,
       given_generate_normal = None,
       given_generate_model = Some True,
       given_save_gaussian_ply = None,
       given_return_no_background = None,
       given_ss_sampling_steps = None,
       given_ss_guidance_strength = None,
       given_slat_sampling_steps = None,
       given_slat_guidance_strength = None \<rparr>"

definition example_request :: Generate3DRequest where
  "example_request =
     \<lparr> images = [''http://a/img.png''],
       seed = 1337,
       randomize_seed = False,
       texture_size = 2048,
       mesh_simplify = 96 / 100,
       generate_color = False,
       generate_normal = False,
       generate_model = True,
       save_gaussian_ply = False,
       return_no_background = True,
       ss_sampling_steps = 26,
       ss_guidance_strength = 8,
       slat_sampling_steps = 26,
       slat_guidance_strength = 32 / 10 \<rparr>"

text \<open>
  A store whose writes can raise. The state carries, next to a store as modelled above, the
  outcomes scheduled for the writes still to come: \<open>Some e\<close> makes the write raise \<open>e\<close> and
  leave the slot alone, \<open>None\<close> (or nothing scheduled) lets it through.
\<close>

definition flaky_service :: "(string option list \<times> redis) redis_service" where
  "flaky_service =
     \<lparr> set_json = (\<lambda>key v ex (schedule, s).
         case schedule of
           [] \<Rightarrow> (Inr (), ([], redis_set_json key v ex s))
         | None # rest \<Rightarrow> (Inr (), (rest, redis_set_json key v ex s))
         | Some e # rest \<Rightarrow> (Inl e, (rest, s))),
       get_json = (\<lambda>key (schedule, s). Inr (redis_get_json key s)) \<rparr>"

text \<open>The three status records that \<open>generate_3d_asset\<close> writes, by name.\<close>

definition processing_record :: json where
  "processing_record =
     JObj [(''status'', JStr ''processing''),
           (''progress'', JInt 5),
           (''message'', JStr (''Submitting job to Trellis'' @ ellipsis))]"

definition complete_record :: "pydict \<Rightarrow> json" where
  "complete_record output =
     JObj [(''status'', JStr ''complete''),
           (''progress'', JInt 100),
           (''message'', JStr ''3D model generated successfully!''),
           (''model_file'', dict_get output ''model_file'' JNull),
           (''color_video'', dict_get output ''color_video'' JNull),
           (''no_background_images'', dict_get output ''no_background_images'' (JArr []))]"

definition error_record :: "string \<Rightarrow> json" where
  "error_record reason =
     JObj [(''status'', JStr ''error''),
           (''progress'', JInt 0),
           (''message'', JStr (''Generation failed: '' @ reason))]"


section \<open>Properties\<close>

subsection \<open>Status writes and the paths of a submission\<close>

lemma calls_set_status:
  "calls (snd (set_status rs p w)) = calls w @ [SetJson STATUS_KEY p 3600]"
  by (simp add: set_status_def split: prod.splits)

lemma fst_set_status:
  "fst (set_status rs p w) = fst (set_json rs STATUS_KEY p 3600 (store w))"
  by (simp add: set_status_def split: prod.splits)

lemma store_set_status:
  "store (snd (set_status rs p w)) = snd (set_json rs STATUS_KEY p 3600 (store w))"
  by (simp add: set_status_def split: prod.splits)

lemma set_status_eq:
  "set_status rs p w =
     (fst (set_json rs STATUS_KEY p 3600 (store w)),
      \<lparr> store = snd (set_json rs STATUS_KEY p 3600 (store w)),
        calls = calls w @ [SetJson STATUS_KEY p 3600] \<rparr>)"
  by (simp add: set_status_def split: prod.splits)

lemma set_status_redis:
  "set_status redis_service payload w =
     (Inr (), \<lparr> store = redis_set_json STATUS_KEY payload 3600 (store w),
                calls = calls w @ [SetJson STATUS_KEY payload 3600] \<rparr>)"
  by (simp add: set_status_def redis_service_def)

lemma get_after_set:
  "redis_get_json key (redis_set_json key v 3600 s) = v"
  by (simp add: redis_get_json_def redis_set_json_def)

lemma get_generation_status_redis:
  "get_generation_status redis_service s =
     Inr (if falsy (redis_get_json STATUS_KEY s)
          then JObj [(''status'', JStr ''idle''),
                     (''progress'', JInt 0),
                     (''message'', JStr ''No generation started'')]
          else redis_get_json STATUS_KEY s)"
  by (simp add: get_generation_status_def redis_service_def)

lemma try_unfold:
  "generate_3d_asset_try rs trellis request w =
     (case set_status rs processing_record w of
        (Inl e, w1) \<Rightarrow> (Inl e, w1)
      | (Inr u, w1) \<Rightarrow>
          (case trellis (forwarded request) of
             Inl e \<Rightarrow> (Inl e, w1 \<lparr> calls := calls w1 @ [Generate (forwarded request)] \<rparr>)
           | Inr output \<Rightarrow>
               (case set_status rs (complete_record output)
                       (w1 \<lparr> calls := calls w1 @ [Generate (forwarded request)] \<rparr>) of
                  (Inl e, w3) \<Rightarrow> (Inl e, w3)
                | (Inr u, w3) \<Rightarrow> (Inr output, w3))))"
  unfolding generate_3d_asset_try_def processing_record_def complete_record_def forwarded_def Let_def
  by (rule refl)

lemma asset_unfold:
  "generate_3d_asset rs trellis request w =
     (case generate_3d_asset_try rs trellis request w of
        (Inr output, w') \<Rightarrow> (Inr output, w')
      | (Inl e, w') \<Rightarrow>
          (case set_status rs (error_record e) w' of
             (Inl e', w'') \<Rightarrow> (Inl (Uncaught e'), w'')
           | (Inr u, w'') \<Rightarrow>
               (Inl (HTTPException 500 (''Failed to generate 3D asset: '' @ e)), w'')))"
  unfolding generate_3d_asset_def error_record_def
  by (rule refl)

lemma try_first_raises:
  assumes "fst (set_status rs processing_record w) = Inl e"
  shows "generate_3d_asset_try rs trellis request w = (Inl e, snd (set_status rs processing_record w))"
proof (cases "set_status rs processing_record w")
  case (Pair r w1)
  with assms show ?thesis by (simp add: try_unfold)
qed

lemma asset_after_raise:
  assumes "generate_3d_asset_try rs trellis request w = (Inl e, w')"
  shows "calls (snd (generate_3d_asset rs trellis request w)) =
           calls w' @ [SetJson STATUS_KEY (error_record e) 3600]"
    and "fst (generate_3d_asset rs trellis request w) =
           (case fst (set_status rs (error_record e) w') of
              Inl e' \<Rightarrow> Inl (Uncaught e')
            | Inr u \<Rightarrow> Inl (HTTPException 500 (''Failed to generate 3D asset: '' @ e)))"
proof -
  obtain r w'' where p: "set_status rs (error_record e) w' = (r, w'')"
    by (cases "set_status rs (error_record e) w'")
  have c: "calls w'' = calls w' @ [SetJson STATUS_KEY (error_record e) 3600]"
    using calls_set_status [of rs "error_record e" w'] p by simp
  show "calls (snd (generate_3d_asset rs trellis request w)) =
           calls w' @ [SetJson STATUS_KEY (error_record e) 3600]"
    using assms p c by (cases r) (simp_all add: asset_unfold)
  show "fst (generate_3d_asset rs trellis request w) =
           (case fst (set_status rs (error_record e) w') of
              Inl e' \<Rightarrow> Inl (Uncaught e')
            | Inr u \<Rightarrow> Inl (HTTPException 500 (''Failed to generate 3D asset: '' @ e)))"
    using assms p by (cases r) (simp_all add: asset_unfold)
qed


lemma asset_first_write_raises:
  assumes "fst (set_json rs STATUS_KEY processing_record 3600 (store w)) = Inl e"
  shows "calls (snd (generate_3d_asset rs trellis request w)) =
           calls w @ [SetJson STATUS_KEY processing_record 3600,
                      SetJson STATUS_KEY (error_record e) 3600]"
    and "fst (generate_3d_asset rs trellis request w) =
           (case fst (set_json rs STATUS_KEY (error_record e) 3600
                        (snd (set_json rs STATUS_KEY processing_record 3600 (store w)))) of
              Inl e' \<Rightarrow> Inl (Uncaught e')
            | Inr u \<Rightarrow> Inl (HTTPException 500 (''Failed to generate 3D asset: '' @ e)))"
proof -
  from assms have "fst (set_status rs processing_record w) = Inl e"
    by (simp add: fst_set_status)
  from try_first_raises [OF this]
  have t: "generate_3d_asset_try rs trellis request w =
             (Inl e, snd (set_status rs processing_record w))" .
  show "calls (snd (generate_3d_asset rs trellis request w)) =
           calls w @ [SetJson STATUS_KEY processing_record 3600,
                      SetJson STATUS_KEY (error_record e) 3600]"
    using asset_after_raise(1) [OF t] by (simp add: calls_set_status)
  show "fst (generate_3d_asset rs trellis request w) =
           (case fst (set_json rs STATUS_KEY (error_record e) 3600
                        (snd (set_json rs STATUS_KEY processing_record 3600 (store w)))) of
              Inl e' \<Rightarrow> Inl (Uncaught e')
            | Inr u \<Rightarrow> Inl (HTTPException 500 (''Failed to generate 3D asset: '' @ e)))"
    using asset_after_raise(2) [OF t] by (simp add: fst_set_status store_set_status)
qed

lemma try_engine_returned:
  assumes "fst (set_json rs STATUS_KEY processing_record 3600 (store w)) = Inr ()"
    and "trellis (forwarded request) = Inr out"
  shows "generate_3d_asset_try rs trellis request w =
     (case fst (set_json rs STATUS_KEY (complete_record out) 3600
                  (snd (set_json rs STATUS_KEY processing_record 3600 (store w)))) of
        Inl e \<Rightarrow> Inl e
      | Inr u \<Rightarrow> Inr out,
      \<lparr> store = snd (set_json rs STATUS_KEY (complete_record out) 3600
                  (snd (set_json rs STATUS_KEY processing_record 3600 (store w)))),
        calls = calls w @ [SetJson STATUS_KEY processing_record 3600,
                           Generate (forwarded request),
                           SetJson STATUS_KEY (complete_record out) 3600] \<rparr>)"
  using assms by (simp add: try_unfold set_status_eq split: sum.splits)

lemma try_engine_raised:
  assumes "fst (set_json rs STATUS_KEY processing_record 3600 (store w)) = Inr ()"
    and "trellis (forwarded request) = Inl reason"
  shows "generate_3d_asset_try rs trellis request w =
     (Inl reason,
      \<lparr> store = snd (set_json rs STATUS_KEY processing_record 3600 (store w)),
        calls = calls w @ [SetJson STATUS_KEY processing_record 3600,
                           Generate (forwarded request)] \<rparr>)"
  using assms by (simp add: try_unfold set_status_eq)

lemma asset_returned:
  assumes "fst (set_json rs STATUS_KEY processing_record 3600 (store w)) = Inr ()"
    and "trellis (forwarded request) = Inr out"
    and "fst (set_json rs STATUS_KEY (complete_record out) 3600
                (snd (set_json rs STATUS_KEY processing_record 3600 (store w)))) = Inr ()"
  shows "generate_3d_asset rs trellis request w =
     (Inr out,
      \<lparr> store = snd (set_json rs STATUS_KEY (complete_record out) 3600
                  (snd (set_json rs STATUS_KEY processing_record 3600 (store w)))),
        calls = calls w @ [SetJson STATUS_KEY processing_record 3600,
                           Generate (forwarded request),
                           SetJson STATUS_KEY (complete_record out) 3600] \<rparr>)"
  using assms by (simp add: asset_unfold try_engine_returned)

lemma asset_engine_raised:
  assumes "fst (set_json rs STATUS_KEY processing_record 3600 (store w)) = Inr ()"
    and "trellis (forwarded request) = Inl reason"
    and "fst (set_json rs STATUS_KEY (error_record reason) 3600
                (snd (set_json rs STATUS_KEY processing_record 3600 (store w)))) = Inr ()"
  shows "generate_3d_asset rs trellis request w =
     (Inl (HTTPException 500 (''Failed to generate 3D asset: '' @ reason)),
      \<lparr> store = snd (set_json rs STATUS_KEY (error_record reason) 3600
                  (snd (set_json rs STATUS_KEY processing_record 3600 (store w)))),
        calls = calls w @ [SetJson STATUS_KEY processing_record 3600,
                           Generate (forwarded request),
                           SetJson STATUS_KEY (error_record reason) 3600] \<rparr>)"
  using assms by (simp add: asset_unfold try_engine_raised set_status_eq)

lemma asset_run_writes_return:
  assumes "fst (set_json rs STATUS_KEY processing_record 3600 (store w)) = Inr ()"
    and "fst (set_json rs STATUS_KEY
                (case trellis (forwarded request) of
                   Inl reason \<Rightarrow> error_record reason
                 | Inr out \<Rightarrow> complete_record out)
                3600 (snd (set_json rs STATUS_KEY processing_record 3600 (store w)))) = Inr ()"
  shows "fst (generate_3d_asset rs trellis request w) =
     (case trellis (forwarded request) of
        Inl reason \<Rightarrow> Inl (HTTPException 500 (''Failed to generate 3D asset: '' @ reason))
      | Inr out \<Rightarrow> Inr out)"
proof (cases "trellis (forwarded request)")
  case (Inl reason)
  with assms(2) have "fst (set_json rs STATUS_KEY (error_record reason) 3600
      (snd (set_json rs STATUS_KEY processing_record 3600 (store w)))) = Inr ()" by simp
  from asset_engine_raised [of rs w trellis request reason, OF assms(1) Inl this] Inl
  show ?thesis by simp
next
  case (Inr out)
  with assms(2) have "fst (set_json rs STATUS_KEY (complete_record out) 3600
      (snd (set_json rs STATUS_KEY processing_record 3600 (store w)))) = Inr ()" by simp
  from asset_returned [of rs w trellis request out, OF assms(1) Inr this] Inr
  show ?thesis by simp
qed



lemma generate_3d_unfold:
  "generate_3d trellis request w =
     (case trellis (forwarded request) of
        Inr result \<Rightarrow> (Inr result, w \<lparr> calls := calls w @ [Generate (forwarded request)] \<rparr>)
      | Inl e \<Rightarrow>
          (Inl (HTTPException 500 e), w \<lparr> calls := calls w @ [Generate (forwarded request)] \<rparr>))"
  unfolding generate_3d_def forwarded_def Let_def
  by (rule refl)

subsection \<open>Submission\<close>

text \<open>
  C1, with the condition the code needs. Whenever the pre-call status write returns, the
  engine call succeeds with output \<open>O\<close> and the status write that follows returns, the
  submission endpoint returns \<open>O\<close> itself, having made three calls: the processing write, the
  engine call, and the write of the status record with \<open>status = complete\<close>,
  \<open>progress = 100\<close> and \<open>model_file\<close>, \<open>color_video\<close>, \<open>no_background_images\<close> read from \<open>O\<close>
  (\<open>None\<close>, \<open>None\<close> and \<open>[]\<close> where \<open>O\<close> lacks the key). The store is left as that last write
  left it. This holds of every store.
\<close>

theorem generate_3d_asset_success:
  assumes "trellis (forwarded request) = Inr output"
    and "fst (set_json rs STATUS_KEY
           (JObj [(''status'', JStr ''processing''),
              (''progress'', JInt 5),
              (''message'', JStr (''Submitting job to Trellis'' @ ellipsis))]) 3600 (store w)) = Inr ()"
    and "fst (set_json rs STATUS_KEY
           (JObj [(''status'', JStr ''complete''),
              (''progress'', JInt 100),
              (''message'', JStr ''3D model generated successfully!''),
              (''model_file'', dict_get output ''model_file'' JNull),
              (''color_video'', dict_get output ''color_video'' JNull),
              (''no_background_images'', dict_get output ''no_background_images'' (JArr []))]) 3600
           (snd (set_json rs STATUS_KEY
             (JObj [(''status'', JStr ''processing''),
              (''progress'', JInt 5),
              (''message'', JStr (''Submitting job to Trellis'' @ ellipsis))]) 3600 (store w)))) = Inr ()"
  shows "fst (generate_3d_asset rs trellis request w) = Inr output \<and>
         calls (snd (generate_3d_asset rs trellis request w)) =
           calls w @
           [SetJson STATUS_KEY
              (JObj [(''status'', JStr ''processing''),
              (''progress'', JInt 5),
              (''message'', JStr (''Submitting job to Trellis'' @ ellipsis))]) 3600,
            Generate (forwarded request),
            SetJson STATUS_KEY
              (JObj [(''status'', JStr ''complete''),
              (''progress'', JInt 100),
              (''message'', JStr ''3D model generated successfully!''),
              (''model_file'', dict_get output ''model_file'' JNull),
              (''color_video'', dict_get output ''color_video'' JNull),
              (''no_background_images'', dict_get output ''no_background_images'' (JArr []))]) 3600] \<and>
         store (snd (generate_3d_asset rs trellis request w)) =
           snd (set_json rs STATUS_KEY
             (JObj [(''status'', JStr ''complete''),
              (''progress'', JInt 100),
              (''message'', JStr ''3D model generated successfully!''),
              (''model_file'', dict_get output ''model_file'' JNull),
              (''color_video'', dict_get output ''color_video'' JNull),
              (''no_background_images'', dict_get output ''no_background_images'' (JArr []))]) 3600
             (snd (set_json rs STATUS_KEY
               (JObj [(''status'', JStr ''processing''),
              (''progress'', JInt 5),
              (''message'', JStr (''Submitting job to Trellis'' @ ellipsis))]) 3600 (store w))))"
  using assms asset_returned [of rs w trellis request "output"]
  unfolding processing_record_def complete_record_def
  by simp

theorem generate_3d_asset_success_witness:
  "stub_engine (forwarded example_request) = Inr [(''model_file'', JStr ''m.glb'')] \<and>
   fst (set_json flaky_service STATUS_KEY
          (JObj [(''status'', JStr ''processing''),
              (''progress'', JInt 5),
              (''message'', JStr (''Submitting job to Trellis'' @ ellipsis))]) 3600 ([None, None, Some ''later''], redis_empty)) = Inr () \<and>
   fst (set_json flaky_service STATUS_KEY
          (JObj [(''status'', JStr ''complete''),
              (''progress'', JInt 100),
              (''message'', JStr ''3D model generated successfully!''),
              (''model_file'', JStr ''m.glb''),
              (''color_video'', JNull),
              (''no_background_images'', JArr [])]) 3600
          (snd (set_json flaky_service STATUS_KEY
             (JObj [(''status'', JStr ''processing''),
              (''progress'', JInt 5),
              (''message'', JStr (''Submitting job to Trellis'' @ ellipsis))]) 3600 ([None, None, Some ''later''], redis_empty)))) = Inr () \<and>
   fst (generate_3d_asset flaky_service stub_engine example_request
          \<lparr> store = ([None, None, Some ''later''], redis_empty), calls = [] \<rparr>) =
     Inr [(''model_file'', JStr ''m.glb'')] \<and>
   calls (snd (generate_3d_asset flaky_service stub_engine example_request
          \<lparr> store = ([None, None, Some ''later''], redis_empty), calls = [] \<rparr>)) =
     [SetJson STATUS_KEY
        (JObj [(''status'', JStr ''processing''),
              (''progress'', JInt 5),
              (''message'', JStr (''Submitting job to Trellis'' @ ellipsis))]) 3600,
      Generate (forwarded example_request),
      SetJson STATUS_KEY
        (JObj [(''status'', JStr ''complete''),
              (''progress'', JInt 100),
              (''message'', JStr ''3D model generated successfully!''),
              (''model_file'', JStr ''m.glb''),
              (''color_video'', JNull),
              (''no_background_images'', JArr [])]) 3600] \<and>
   get_generation_status flaky_service
     (store (snd (generate_3d_asset flaky_service stub_engine example_request
          \<lparr> store = ([None, None, Some ''later''], redis_empty), calls = [] \<rparr>))) =
     Inr (JObj [(''status'', JStr ''complete''),
              (''progress'', JInt 100),
              (''message'', JStr ''3D model generated successfully!''),
              (''model_file'', JStr ''m.glb''),
              (''color_video'', JNull),
              (''no_background_images'', JArr [])])"
proof -
  have h: "stub_engine (forwarded example_request) = Inr [(''model_file'', JStr ''m.glb'')]"
    by (simp add: stub_engine_def)
  show ?thesis
    using h generate_3d_asset_success [of stub_engine example_request
        "[(''model_file'', JStr ''m.glb'')]" flaky_service
        "\<lparr> store = ([None, None, Some ''later''], redis_empty), calls = [] \<rparr>"]
    by (simp add: flaky_service_def dict_get_def get_generation_status_def
        redis_get_json_def redis_set_json_def redis_empty_def)
qed

text \<open>
  C1 as stated fails. The engine returns \<open>{"model_file": "m.glb"}\<close>, the complete write
  raises \<open>boom\<close>: the \<open>except\<close> handler takes over, the caller receives HTTP 500 and the
  status reads \<open>error\<close>.
\<close>

theorem complete_write_raises_counterexample:
  "stub_engine (forwarded example_request) = Inr [(''model_file'', JStr ''m.glb'')] \<and>
   fst (generate_3d_asset flaky_service stub_engine example_request
          \<lparr> store = ([None, Some ''boom''], redis_empty), calls = [] \<rparr>) =
     Inl (HTTPException 500 ''Failed to generate 3D asset: boom'') \<and>
   get_generation_status flaky_service
     (store (snd (generate_3d_asset flaky_service stub_engine example_request
          \<lparr> store = ([None, Some ''boom''], redis_empty), calls = [] \<rparr>))) =
     Inr (JObj [(''status'', JStr ''error''),
              (''progress'', JInt 0),
              (''message'', JStr ''Generation failed: boom'')])"
  by (simp add: generate_3d_asset_def generate_3d_asset_try_def set_status_def flaky_service_def
      stub_engine_def get_generation_status_def redis_get_json_def redis_set_json_def
      redis_empty_def)

text \<open>
  C2, with the condition the code needs. Whenever the pre-call status write returns, the
  engine call fails with reason \<open>R\<close> and the status write that follows returns, the caller
  receives the HTTP 500 error with detail \<open>Failed to generate 3D asset: R\<close> and no output,
  the endpoint having made three calls: the processing write, the engine call, and the
  write of the status record with \<open>status = error\<close>, \<open>progress = 0\<close> and message
  \<open>Generation failed: R\<close>. The store is left as that last write left it. This holds of
  every store.
\<close>

theorem generate_3d_asset_failure:
  assumes "trellis (forwarded request) = Inl reason"
    and "fst (set_json rs STATUS_KEY
           (JObj [(''status'', JStr ''processing''),
              (''progress'', JInt 5),
              (''message'', JStr (''Submitting job to Trellis'' @ ellipsis))]) 3600 (store w)) = Inr ()"
    and "fst (set_json rs STATUS_KEY
           (JObj [(''status'', JStr ''error''),
              (''progress'', JInt 0),
              (''message'', JStr (''Generation failed: '' @ reason))]) 3600
           (snd (set_json rs STATUS_KEY
             (JObj [(''status'', JStr ''processing''),
              (''progress'', JInt 5),
              (''message'', JStr (''Submitting job to Trellis'' @ ellipsis))]) 3600 (store w)))) = Inr ()"
  shows "fst (generate_3d_asset rs trellis request w) =
           Inl (HTTPException 500 (''Failed to generate 3D asset: '' @ reason)) \<and>
         calls (snd (generate_3d_asset rs trellis request w)) =
           calls w @
           [SetJson STATUS_KEY
              (JObj [(''status'', JStr ''processing''),
              (''progress'', JInt 5),
              (''message'', JStr (''Submitting job to Trellis'' @ ellipsis))]) 3600,
            Generate (forwarded request),
            SetJson STATUS_KEY
              (JObj [(''status'', JStr ''error''),
              (''progress'', JInt 0),
              (''message'', JStr (''Generation failed: '' @ reason))]) 3600] \<and>
         store (snd (generate_3d_asset rs trellis request w)) =
           snd (set_json rs STATUS_KEY
             (JObj [(''status'', JStr ''error''),
              (''progress'', JInt 0),
              (''message'', JStr (''Generation failed: '' @ reason))]) 3600
             (snd (set_json rs STATUS_KEY
               (JObj [(''status'', JStr ''processing''),
              (''progress'', JInt 5),
              (''message'', JStr (''Submitting job to Trellis'' @ ellipsis))]) 3600 (store w))))"
  using assms asset_engine_raised [of rs w trellis request reason]
  unfolding processing_record_def error_record_def
  by simp

theorem generate_3d_asset_failure_witness:
  "failing_engine (forwarded example_request) = Inl ''rate limited'' \<and>
   fst (set_json flaky_service STATUS_KEY
          (JObj [(''status'', JStr ''processing''),
              (''progress'', JInt 5),
              (''message'', JStr (''Submitting job to Trellis'' @ ellipsis))]) 3600 ([None, None, Some ''later''], redis_empty)) = Inr () \<and>
   fst (set_json flaky_service STATUS_KEY
          (JObj [(''status'', JStr ''error''),
              (''progress'', JInt 0),
              (''message'', JStr ''Generation failed: rate limited'')]) 3600
          (snd (set_json flaky_service STATUS_KEY
             (JObj [(''status'', JStr ''processing''),
              (''progress'', JInt 5),
              (''message'', JStr (''Submitting job to Trellis'' @ ellipsis))]) 3600 ([None, None, Some ''later''], redis_empty)))) = Inr () \<and>
   fst (generate_3d_asset flaky_service failing_engine example_request
          \<lparr> store = ([None, None, Some ''later''], redis_empty), calls = [] \<rparr>) =
     Inl (HTTPException 500 ''Failed to generate 3D asset: rate limited'') \<and>
   calls (snd (generate_3d_asset flaky_service failing_engine example_request
          \<lparr> store = ([None, None, Some ''later''], redis_empty), calls = [] \<rparr>)) =
     [SetJson STATUS_KEY
        (JObj [(''status'', JStr ''processing''),
              (''progress'', JInt 5),
              (''message'', JStr (''Submitting job to Trellis'' @ ellipsis))]) 3600,
      Generate (forwarded example_request),
      SetJson STATUS_KEY
        (JObj [(''status'', JStr ''error''),
              (''progress'', JInt 0),
              (''message'', JStr ''Generation failed: rate limited'')]) 3600] \<and>
   get_generation_status flaky_service
     (store (snd (generate_3d_asset flaky_service failing_engine example_request
          \<lparr> store = ([None, None, Some ''later''], redis_empty), calls = [] \<rparr>))) =
     Inr (JObj [(''status'', JStr ''error''),
              (''progress'', JInt 0),
              (''message'', JStr ''Generation failed: rate limited'')])"
proof -
  have h: "failing_engine (forwarded example_request) = Inl ''rate limited''"
    by (simp add: failing_engine_def)
  show ?thesis
    using h generate_3d_asset_failure [of failing_engine example_request
        "''rate limited''" flaky_service
        "\<lparr> store = ([None, None, Some ''later''], redis_empty), calls = [] \<rparr>"]
    by (simp add: flaky_service_def get_generation_status_def
        redis_get_json_def redis_set_json_def redis_empty_def)
qed

text \<open>
  C2 as stated fails. The engine raises \<open>rate limited\<close>, the error write raises \<open>down\<close>:
  the caller receives that exception, not the HTTP 500 error naming the engine's reason,
  and the status still reads \<open>processing\<close>.
\<close>

theorem error_write_raises_counterexample:
  "failing_engine (forwarded example_request) = Inl ''rate limited'' \<and>
   fst (generate_3d_asset flaky_service failing_engine example_request
          \<lparr> store = ([None, Some ''down''], redis_empty), calls = [] \<rparr>) =
     Inl (Uncaught ''down'') \<and>
   get_generation_status flaky_service
     (store (snd (generate_3d_asset flaky_service failing_engine example_request
          \<lparr> store = ([None, Some ''down''], redis_empty), calls = [] \<rparr>))) =
     Inr (JObj [(''status'', JStr ''processing''),
              (''progress'', JInt 5),
              (''message'', JStr (''Submitting job to Trellis'' @ ellipsis))])"
  by (simp add: generate_3d_asset_def generate_3d_asset_try_def set_status_def flaky_service_def
      failing_engine_def get_generation_status_def redis_get_json_def redis_set_json_def
      redis_empty_def)

text \<open>
  C3, as the code has it. A status write that raises is not absorbed: the writes sit
  inside the \<open>try\<close> block with no guard of their own. If the pre-call write raises \<open>E\<close>,
  the endpoint makes exactly two calls, the processing write and the error write with
  message \<open>Generation failed: E\<close>, and never calls the engine; the caller receives HTTP 500
  with detail \<open>Failed to generate 3D asset: E\<close> when the error write returns, and the
  error write's own exception when it raises too. What does hold of every store: when the
  two status writes of the request return (the processing write, then the complete or
  error write that the engine's answer calls for), whatever they do to the slot, the
  outcome is the engine's alone.
\<close>

theorem raising_status_write_aborts:
  "(fst (set_json rs STATUS_KEY
           (JObj [(''status'', JStr ''processing''),
              (''progress'', JInt 5),
              (''message'', JStr (''Submitting job to Trellis'' @ ellipsis))]) 3600 (store w)) = Inl e \<longrightarrow>
      calls (snd (generate_3d_asset rs trellis request w)) =
        calls w @
        [SetJson STATUS_KEY
           (JObj [(''status'', JStr ''processing''),
              (''progress'', JInt 5),
              (''message'', JStr (''Submitting job to Trellis'' @ ellipsis))]) 3600,
         SetJson STATUS_KEY
           (JObj [(''status'', JStr ''error''),
              (''progress'', JInt 0),
              (''message'', JStr (''Generation failed: '' @ e))]) 3600] \<and>
      fst (generate_3d_asset rs trellis request w) =
        (case fst (set_json rs STATUS_KEY
                     (JObj [(''status'', JStr ''error''),
              (''progress'', JInt 0),
              (''message'', JStr (''Generation failed: '' @ e))]) 3600
                     (snd (set_json rs STATUS_KEY
                        (JObj [(''status'', JStr ''processing''),
              (''progress'', JInt 5),
              (''message'', JStr (''Submitting job to Trellis'' @ ellipsis))]) 3600 (store w)))) of
           Inl e' \<Rightarrow> Inl (Uncaught e')
         | Inr u \<Rightarrow> Inl (HTTPException 500 (''Failed to generate 3D asset: '' @ e)))) \<and>
   (fst (set_json rs STATUS_KEY
           (JObj [(''status'', JStr ''processing''),
              (''progress'', JInt 5),
              (''message'', JStr (''Submitting job to Trellis'' @ ellipsis))]) 3600 (store w)) = Inr () \<and>
    fst (set_json rs STATUS_KEY
           (case trellis (forwarded request) of
              Inl reason \<Rightarrow>
                JObj [(''status'', JStr ''error''),
                      (''progress'', JInt 0),
                      (''message'', JStr (''Generation failed: '' @ reason))]
            | Inr output \<Rightarrow>
                JObj [(''status'', JStr ''complete''),
                      (''progress'', JInt 100),
                      (''message'', JStr ''3D model generated successfully!''),
                      (''model_file'', dict_get output ''model_file'' JNull),
                      (''color_video'', dict_get output ''color_video'' JNull),
                      (''no_background_images'',
                         dict_get output ''no_background_images'' (JArr []))]) 3600
           (snd (set_json rs STATUS_KEY
              (JObj [(''status'', JStr ''processing''),
              (''progress'', JInt 5),
              (''message'', JStr (''Submitting job to Trellis'' @ ellipsis))]) 3600 (store w)))) = Inr () \<longrightarrow>
      fst (generate_3d_asset rs trellis request w) =
        (case trellis (forwarded request) of
           Inl reason \<Rightarrow> Inl (HTTPException 500 (''Failed to generate 3D asset: '' @ reason))
         | Inr output \<Rightarrow> Inr output))"
  using asset_first_write_raises [of rs w e trellis request]
    asset_run_writes_return [of rs w trellis request]
  unfolding processing_record_def error_record_def complete_record_def
  by blast

theorem raising_status_write_aborts_witness:
  "fst (set_json flaky_service STATUS_KEY
          (JObj [(''status'', JStr ''processing''),
              (''progress'', JInt 5),
              (''message'', JStr (''Submitting job to Trellis'' @ ellipsis))]) 3600 ([Some ''connection refused''], redis_empty)) = Inl ''connection refused'' \<and>
   fst (generate_3d_asset flaky_service stub_engine example_request
          \<lparr> store = ([Some ''connection refused''], redis_empty), calls = [] \<rparr>) =
     Inl (HTTPException 500 ''Failed to generate 3D asset: connection refused'') \<and>
   calls (snd (generate_3d_asset flaky_service stub_engine example_request
          \<lparr> store = ([Some ''connection refused''], redis_empty), calls = [] \<rparr>)) =
     [SetJson STATUS_KEY
        (JObj [(''status'', JStr ''processing''),
              (''progress'', JInt 5),
              (''message'', JStr (''Submitting job to Trellis'' @ ellipsis))]) 3600,
      SetJson STATUS_KEY
        (JObj [(''status'', JStr ''error''),
              (''progress'', JInt 0),
              (''message'', JStr ''Generation failed: connection refused'')]) 3600] \<and>
   fst (set_json flaky_service STATUS_KEY
          (JObj [(''status'', JStr ''processing''),
              (''progress'', JInt 5),
              (''message'', JStr (''Submitting job to Trellis'' @ ellipsis))]) 3600 ([None, None, Some ''later''], redis_empty)) = Inr () \<and>
   fst (set_json flaky_service STATUS_KEY
          (JObj [(''status'', JStr ''complete''),
              (''progress'', JInt 100),
              (''message'', JStr ''3D model generated successfully!''),
              (''model_file'', JStr ''m.glb''),
              (''color_video'', JNull),
              (''no_background_images'', JArr [])]) 3600
          (snd (set_json flaky_service STATUS_KEY
             (JObj [(''status'', JStr ''processing''),
              (''progress'', JInt 5),
              (''message'', JStr (''Submitting job to Trellis'' @ ellipsis))]) 3600 ([None, None, Some ''later''], redis_empty)))) = Inr () \<and>
   fst (generate_3d_asset flaky_service stub_engine example_request
          \<lparr> store = ([None, None, Some ''later''], redis_empty), calls = [] \<rparr>) = Inr [(''model_file'', JStr ''m.glb'')]"
  using raising_status_write_aborts [of flaky_service
          "\<lparr> store = ([Some ''connection refused''], redis_empty), calls = [] \<rparr>"
          "''connection refused''" stub_engine example_request]
        raising_status_write_aborts [of flaky_service
          "\<lparr> store = ([None, None, Some ''later''], redis_empty), calls = [] \<rparr>" "''x''" stub_engine example_request]
  by (simp add: flaky_service_def stub_engine_def dict_get_def)

text \<open>
  C3 as stated fails. With a store whose first write raises \<open>connection refused\<close>, the
  request that would have returned the engine's output (last line: the same run with
  nothing scheduled to raise) ends in HTTP 500, and the engine is never called.
\<close>

theorem best_effort_counterexample:
  "fst (generate_3d_asset flaky_service stub_engine example_request
          \<lparr> store = ([Some ''connection refused''], redis_empty), calls = [] \<rparr>) =
     Inl (HTTPException 500 ''Failed to generate 3D asset: connection refused'') \<and>
   Generate (forwarded example_request) \<notin>
     set (calls (snd (generate_3d_asset flaky_service stub_engine example_request
          \<lparr> store = ([Some ''connection refused''], redis_empty), calls = [] \<rparr>))) \<and>
   fst (generate_3d_asset flaky_service stub_engine example_request
          \<lparr> store = ([], redis_empty), calls = [] \<rparr>) = Inr [(''model_file'', JStr ''m.glb'')]"
  by (simp add: generate_3d_asset_def generate_3d_asset_try_def set_status_def flaky_service_def
      stub_engine_def)







subsection \<open>The status slot\<close>

text \<open>
  C5. A status write replaces the slot at the fixed key: whatever the store held, the slot
  afterwards holds exactly the payload written, expiring 3600 seconds after the write, and
  the other keys and the clock are as before. A read within 3600 seconds returns that
  payload, a read from 3600 seconds on finds nothing. Writing \<open>r1\<close> and then \<open>r2\<close> leaves the
  store that writing \<open>r2\<close> alone leaves.
\<close>

theorem status_write_replaces:
  "slots (store (snd (set_status redis_service r2 w))) =
     (slots (store w))(STATUS_KEY \<mapsto> (r2, clock (store w) + 3600)) \<and>
   clock (store (snd (set_status redis_service r2 w))) = clock (store w) \<and>
   redis_get_json STATUS_KEY (elapse secs (store (snd (set_status redis_service r2 w)))) =
     (if secs < 3600 then r2 else JNull) \<and>
   store (snd (set_status redis_service r2 (snd (set_status redis_service r1 w)))) =
     store (snd (set_status redis_service r2 w))"
  by (simp add: set_status_redis redis_set_json_def redis_get_json_def elapse_def)

theorem status_write_replaces_witness:
  "redis_get_json STATUS_KEY
     (elapse 0 (store (snd (set_status redis_service
        (JObj [(''status'', JStr ''complete''), (''progress'', JInt 100),
               (''model_file'', JStr ''x'')])
        (snd (set_status redis_service
           (JObj [(''status'', JStr ''processing''), (''progress'', JInt 5)])
           \<lparr> store = redis_empty, calls = [] \<rparr>)))))) =
     JObj [(''status'', JStr ''complete''), (''progress'', JInt 100),
           (''model_file'', JStr ''x'')] \<and>
   redis_get_json STATUS_KEY
     (elapse 3600 (store (snd (set_status redis_service
        (JObj [(''status'', JStr ''complete''), (''progress'', JInt 100),
               (''model_file'', JStr ''x'')])
        (snd (set_status redis_service
           (JObj [(''status'', JStr ''processing''), (''progress'', JInt 5)])
           \<lparr> store = redis_empty, calls = [] \<rparr>)))))) = JNull"
  using status_write_replaces
      [of "JObj [(''status'', JStr ''complete''), (''progress'', JInt 100),
                 (''model_file'', JStr ''x'')]"
          "snd (set_status redis_service
             (JObj [(''status'', JStr ''processing''), (''progress'', JInt 5)])
             \<lparr> store = redis_empty, calls = [] \<rparr>)" 0]
    status_write_replaces
      [of "JObj [(''status'', JStr ''complete''), (''progress'', JInt 100),
                 (''model_file'', JStr ''x'')]"
          "snd (set_status redis_service
             (JObj [(''status'', JStr ''processing''), (''progress'', JInt 5)])
             \<lparr> store = redis_empty, calls = [] \<rparr>)" 3600]
  by simp

text \<open>
  C6. When the slot is absent, as before any submission, or has expired, the status
  endpoint returns exactly \<open>{status: idle, progress: 0, message: No generation started}\<close>.
\<close>

theorem status_idle_when_absent_or_expired:
  assumes "slots s STATUS_KEY = None \<or>
           (\<exists>v expires. slots s STATUS_KEY = Some (v, expires) \<and> expires \<le> clock s)"
  shows "get_generation_status redis_service s =
           Inr (JObj [(''status'', JStr ''idle''),
                  (''progress'', JInt 0),
                  (''message'', JStr ''No generation started'')])"
  using assms by (auto simp: get_generation_status_redis redis_get_json_def)

theorem status_idle_when_absent_or_expired_witness:
  "slots redis_empty STATUS_KEY = None \<and>
   get_generation_status redis_service redis_empty =
     Inr (JObj [(''status'', JStr ''idle''),
                  (''progress'', JInt 0),
                  (''message'', JStr ''No generation started'')]) \<and>
   slots (elapse 3600 (redis_set_json STATUS_KEY (JStr ''x'') 3600 redis_empty)) STATUS_KEY =
     Some (JStr ''x'', 3600) \<and>
   clock (elapse 3600 (redis_set_json STATUS_KEY (JStr ''x'') 3600 redis_empty)) = 3600 \<and>
   get_generation_status redis_service
       (elapse 3600 (redis_set_json STATUS_KEY (JStr ''x'') 3600 redis_empty)) =
     Inr (JObj [(''status'', JStr ''idle''),
                  (''progress'', JInt 0),
                  (''message'', JStr ''No generation started'')])"
proof -
  have a: "slots redis_empty STATUS_KEY = None"
    by (simp add: redis_empty_def)
  have b: "slots (elapse 3600 (redis_set_json STATUS_KEY (JStr ''x'') 3600 redis_empty)) STATUS_KEY =
             Some (JStr ''x'', 3600)"
    by (simp add: redis_empty_def elapse_def redis_set_json_def)
  have c: "clock (elapse 3600 (redis_set_json STATUS_KEY (JStr ''x'') 3600 redis_empty)) = 3600"
    by (simp add: redis_empty_def elapse_def redis_set_json_def)
  from a status_idle_when_absent_or_expired [of redis_empty]
  have d: "get_generation_status redis_service redis_empty =
     Inr (JObj [(''status'', JStr ''idle''),
                  (''progress'', JInt 0),
                  (''message'', JStr ''No generation started'')])"
    by simp
  from b c status_idle_when_absent_or_expired
      [of "elapse 3600 (redis_set_json STATUS_KEY (JStr ''x'') 3600 redis_empty)"]
  have e: "get_generation_status redis_service
       (elapse 3600 (redis_set_json STATUS_KEY (JStr ''x'') 3600 redis_empty)) =
     Inr (JObj [(''status'', JStr ''idle''),
                  (''progress'', JInt 0),
                  (''message'', JStr ''No generation started'')])"
    by simp
  from a b c d e show ?thesis by simp
qed

text \<open>
  C9. The status endpoint returns the idle default whenever the value it fetched is falsy,
  and the fetched value itself otherwise; a fetched record comes back verbatim exactly
  when it is non-empty. So a stored empty record reads as an empty store does.
\<close>

theorem falsy_status_reads_idle:
  assumes "get_json rs STATUS_KEY s = Inr v"
  shows "(falsy v \<longrightarrow> get_generation_status rs s =
            Inr (JObj [(''status'', JStr ''idle''),
                  (''progress'', JInt 0),
                  (''message'', JStr ''No generation started'')])) \<and>
         (\<not> falsy v \<longrightarrow> get_generation_status rs s = Inr v) \<and>
         (\<forall>kvs. v = JObj kvs \<longrightarrow> (get_generation_status rs s = Inr v) = (kvs \<noteq> [])) \<and>
         get_generation_status redis_service (store (snd (set_status redis_service (JObj []) w))) =
           get_generation_status redis_service redis_empty"
proof -
  have g: "get_generation_status rs s =
             (if falsy v
              then Inr (JObj [(''status'', JStr ''idle''),
                              (''progress'', JInt 0),
                              (''message'', JStr ''No generation started'')])
              else Inr v)"
    using assms by (simp add: get_generation_status_def)
  have r: "get_generation_status redis_service
             (store (snd (set_status redis_service (JObj []) w))) =
           get_generation_status redis_service redis_empty"
  proof -
    have "redis_get_json STATUS_KEY (store (snd (set_status redis_service (JObj []) w))) = JObj []"
      by (simp add: set_status_redis get_after_set)
    moreover have "redis_get_json STATUS_KEY redis_empty = JNull"
      by (simp add: redis_get_json_def redis_empty_def)
    ultimately show ?thesis
      by (simp add: get_generation_status_redis)
  qed
  show ?thesis unfolding g using r by auto
qed

theorem falsy_status_reads_idle_witness:
  "get_json redis_service STATUS_KEY (redis_set_json STATUS_KEY (JObj []) 3600 redis_empty) =
     Inr (JObj []) \<and>
   falsy (JObj []) \<and>
   get_generation_status redis_service (redis_set_json STATUS_KEY (JObj []) 3600 redis_empty) =
     Inr (JObj [(''status'', JStr ''idle''),
                  (''progress'', JInt 0),
                  (''message'', JStr ''No generation started'')]) \<and>
   get_json redis_service STATUS_KEY
       (redis_set_json STATUS_KEY (JObj [(''status'', JStr ''error'')]) 3600 redis_empty) =
     Inr (JObj [(''status'', JStr ''error'')]) \<and>
   get_generation_status redis_service
       (redis_set_json STATUS_KEY (JObj [(''status'', JStr ''error'')]) 3600 redis_empty) =
     Inr (JObj [(''status'', JStr ''error'')])"
proof -
  have a: "get_json redis_service STATUS_KEY (redis_set_json STATUS_KEY (JObj []) 3600 redis_empty) =
     Inr (JObj [])"
    by (simp add: redis_service_def get_after_set)
  have b: "get_json redis_service STATUS_KEY
       (redis_set_json STATUS_KEY (JObj [(''status'', JStr ''error'')]) 3600 redis_empty) =
     Inr (JObj [(''status'', JStr ''error'')])"
    by (simp add: redis_service_def get_after_set)
  show ?thesis
    using a b falsy_status_reads_idle [OF a] falsy_status_reads_idle [OF b]
    by simp
qed

subsection \<open>Request defaults\<close>

text \<open>
  C8. A field omitted from the request takes the default of the class declaration:
  \<open>seed\<close> 1337, \<open>randomize_seed\<close> false, \<open>texture_size\<close> 2048, \<open>mesh_simplify\<close> 0.96,
  \<open>save_gaussian_ply\<close> false, \<open>return_no_background\<close> true, \<open>ss_sampling_steps\<close> and
  \<open>slat_sampling_steps\<close> 26, \<open>ss_guidance_strength\<close> 8.0, \<open>slat_guidance_strength\<close> 3.2.
\<close>

theorem omitted_fields_take_defaults:
  assumes "Generate3DRequest_init f = Inr r"
  shows "(given_seed f = None \<longrightarrow> seed r = 1337) \<and>
         (given_randomize_seed f = None \<longrightarrow> randomize_seed r = False) \<and>
         (given_texture_size f = None \<longrightarrow> texture_size r = 2048) \<and>
         (given_mesh_simplify f = None \<longrightarrow> mesh_simplify r = 96 / 100) \<and>
         (given_save_gaussian_ply f = None \<longrightarrow> save_gaussian_ply r = False) \<and>
         (given_return_no_background f = None \<longrightarrow> return_no_background r = True) \<and>
         (given_ss_sampling_steps f = None \<longrightarrow> ss_sampling_steps r = 26) \<and>
         (given_slat_sampling_steps f = None \<longrightarrow> slat_sampling_steps r = 26) \<and>
         (given_ss_guidance_strength f = None \<longrightarrow> ss_guidance_strength r = 8) \<and>
         (given_slat_guidance_strength f = None \<longrightarrow> slat_guidance_strength r = 32 / 10)"
proof (cases "given_images f")
  case None
  with assms show ?thesis by (simp add: Generate3DRequest_init_def)
next
  case (Some imgs)
  with assms have r: "r =
          \<lparr> images = imgs,
            seed = or_default (given_seed f) 1337,
            randomize_seed = or_default (given_randomize_seed f) False,
            texture_size = or_default (given_texture_size f) 2048,
            mesh_simplify = or_default (given_mesh_simplify f) (96 / 100),
            generate_color = or_default (given_generate_color f) True,
            generate_normal = or_default (given_generate_normal f) False,
            generate_model = or_default (given_generate_model f) True,
            save_gaussian_ply = or_default (given_save_gaussian_ply f) False,
            return_no_background = or_default (given_return_no_background f) True,
            ss_sampling_steps = or_default (given_ss_sampling_steps f) 26,
            ss_guidance_strength = or_default (given_ss_guidance_strength f) 8,
            slat_sampling_steps = or_default (given_slat_sampling_steps f) 26,
            slat_guidance_strength = or_default (given_slat_guidance_strength f) (32 / 10) \<rparr>"
    by (simp add: Generate3DRequest_init_def)
  show ?thesis unfolding r by (simp add: or_default_def)
qed

theorem omitted_fields_take_defaults_witness:
  "Generate3DRequest_init example_fields = Inr example_request \<and>
   seed example_request = 1337 \<and>
   randomize_seed example_request = False \<and>
   texture_size example_request = 2048 \<and>
   mesh_simplify example_request = 96 / 100 \<and>
   save_gaussian_ply example_request = False \<and>
   return_no_background example_request = True \<and>
   ss_sampling_steps example_request = 26 \<and>
   slat_sampling_steps example_request = 26 \<and>
   ss_guidance_strength example_request = 8 \<and>
   slat_guidance_strength example_request = 32 / 10"
proof -
  have h: "Generate3DRequest_init example_fields = Inr example_request"
    by (simp add: Generate3DRequest_init_def example_fields_def example_request_def or_default_def)
  have g: "given_seed example_fields = None" "given_randomize_seed example_fields = None"
    "given_texture_size example_fields = None" "given_mesh_simplify example_fields = None"
    "given_save_gaussian_ply example_fields = None" "given_return_no_background example_fields = None"
    "given_ss_sampling_steps example_fields = None" "given_slat_sampling_steps example_fields = None"
    "given_ss_guidance_strength example_fields = None"
    "given_slat_guidance_strength example_fields = None"
    by (simp_all add: example_fields_def)
  show ?thesis
    using h omitted_fields_take_defaults [OF h] g by simp
qed

subsection \<open>The secondary service\<close>

text \<open>
  C10. \<open>POST /generate-3d\<close> of main.py leaves the store as it found it and calls nothing but
  the engine, whether the engine succeeds or fails; when the engine fails with reason \<open>R\<close>
  the HTTP 500 error carries \<open>R\<close> alone as its detail, not \<open>Failed to generate 3D asset: R\<close>.
\<close>

theorem generate_3d_leaves_status_alone:
  "store (snd (generate_3d trellis request w)) = store w \<and>
   calls (snd (generate_3d trellis request w)) = calls w @ [Generate (forwarded request)] \<and>
   (\<forall>reason. trellis (forwarded request) = Inl reason \<longrightarrow>
      fst (generate_3d trellis request w) = Inl (HTTPException 500 reason) \<and>
      fst (generate_3d trellis request w) \<noteq>
        Inl (HTTPException 500 (''Failed to generate 3D asset: '' @ reason))) \<and>
   (\<forall>result. trellis (forwarded request) = Inr result \<longrightarrow>
      fst (generate_3d trellis request w) = Inr result)"
proof -
  have prefix: "''Failed to generate 3D asset: '' @ reason \<noteq> reason" for reason :: string
    by (metis append_self_conv2 list.distinct(1))
  show ?thesis
  proof (cases "trellis (forwarded request)")
    case (Inl e)
    then show ?thesis using prefix [of e]
      by (simp add: generate_3d_unfold del: append.simps)
  next
    case (Inr result)
    then show ?thesis by (simp add: generate_3d_unfold)
  qed
qed

theorem generate_3d_leaves_status_alone_witness:
  "failing_engine (forwarded example_request) = Inl ''rate limited'' \<and>
   fst (generate_3d failing_engine example_request
          (snd (set_status redis_service (JStr ''kept'') \<lparr> store = redis_empty, calls = [] \<rparr>))) =
     Inl (HTTPException 500 ''rate limited'') \<and>
   get_generation_status redis_service
     (store (snd (generate_3d failing_engine example_request
        (snd (set_status redis_service (JStr ''kept'') \<lparr> store = redis_empty, calls = [] \<rparr>))))) =
     Inr (JStr ''kept'') \<and>
   stub_engine (forwarded example_request) = Inr [(''model_file'', JStr ''m.glb'')] \<and>
   fst (generate_3d stub_engine example_request
          (snd (set_status redis_service (JStr ''kept'') \<lparr> store = redis_empty, calls = [] \<rparr>))) =
     Inr [(''model_file'', JStr ''m.glb'')]"
proof -
  have a: "failing_engine (forwarded example_request) = Inl ''rate limited''"
    by (simp add: failing_engine_def)
  have b: "stub_engine (forwarded example_request) = Inr [(''model_file'', JStr ''m.glb'')]"
    by (simp add: stub_engine_def)
  show ?thesis
    using a b
      generate_3d_leaves_status_alone [of failing_engine example_request
        "snd (set_status redis_service (JStr ''kept'') \<lparr> store = redis_empty, calls = [] \<rparr>)"]
      generate_3d_leaves_status_alone [of stub_engine example_request
        "snd (set_status redis_service (JStr ''kept'') \<lparr> store = redis_empty, calls = [] \<rparr>)"]
    by (simp add: set_status_redis get_generation_status_redis get_after_set)
qed

end
